theory Spec2Isabelle
  imports Complex_Main
begin

section \<open>Python numbers\<close>

text \<open>
  A Python float other than NaN: a finite value of IEEE 754 binary64, named by the
  rational number it is, or an infinity. The two zeros are one value: they compare equal,
  are the same dict key, and no result below tells them apart. NaN is not a value a
  message carries here (it is not JSON, though \<open>json.loads\<close> accepts the literal); it
  appears only as the result of a subtraction of infinities.
\<close>

datatype float64 = Finite rat | PosInf | NegInf

text \<open>\<open>int.bit_length\<close> of a positive int (0 for the others).\<close>

function bit_length :: "int \<Rightarrow> int" where
  "bit_length n = (if n \<le> 0 then 0 else 1 + bit_length (n div 2))"
  by pat_completeness auto
termination
  by (relation "measure nat") auto

declare bit_length.simps [simp del]

definition pow2 :: "int \<Rightarrow> rat" where
  "pow2 e = (if 0 \<le> e then 2 ^ nat e else 1 / 2 ^ nat (- e))"

text \<open>For \<open>a > 0\<close>, the \<open>e\<close> with \<open>2^e \<le> a < 2^(e+1)\<close>.\<close>

definition floor_log2 :: "rat \<Rightarrow> int" where
  "floor_log2 a =
     (if 1 \<le> a then bit_length \<lfloor>a\<rfloor> - 1 else - bit_length (\<lceil>1 / a\<rceil> - 1))"

definition round_half_even :: "rat \<Rightarrow> int" where
  "round_half_even x =
     (let f = \<lfloor>x\<rfloor>; r = x - of_int f
      in if r < 1 / 2 then f else if 1 / 2 < r then f + 1 else if even f then f else f + 1)"

text \<open>
  Rounding a rational to binary64, to nearest, ties to even: 53 significant bits, the
  spacing never below \<open>2^-1074\<close> (subnormals), and an infinity when the rounded value
  reaches \<open>2^1024\<close>. This is the rounding of float arithmetic and of \<open>float(int)\<close>.
\<close>

definition round64 :: "rat \<Rightarrow> float64" where
  "round64 q =
     (if q = 0 then Finite 0
      else
        (let u = max (floor_log2 \<bar>q\<bar> - 52) (- 1074);
             m = round_half_even (\<bar>q\<bar> / pow2 u)
         in if 1025 \<le> bit_length m + u then (if q < 0 then NegInf else PosInf)
            else Finite ((if q < 0 then - 1 else 1) * of_int m * pow2 u)))"

text \<open>\<open>x < y\<close> and \<open>x <= y\<close> on floats.\<close>

fun float_lt :: "float64 \<Rightarrow> float64 \<Rightarrow> bool" where
  "float_lt (Finite a) (Finite b) = (a < b)"
| "float_lt (Finite a) PosInf = True"
| "float_lt (Finite a) NegInf = False"
| "float_lt NegInf y = (y \<noteq> NegInf)"
| "float_lt PosInf y = False"

definition float_le :: "float64 \<Rightarrow> float64 \<Rightarrow> bool" where
  "float_le x y = (x = y \<or> float_lt x y)"

text \<open>
  What \<open>a - b\<close> returns on two numbers: an int (from two ints), a float, or NaN.
\<close>

datatype number = NInt int | NFloat float64 | NNaN

text \<open>\<open>x - y\<close> on floats: the exact difference, rounded; never an exception.\<close>

fun float_sub :: "float64 \<Rightarrow> float64 \<Rightarrow> number" where
  "float_sub (Finite a) (Finite b) = NFloat (round64 (a - b))"
| "float_sub (Finite a) PosInf = NFloat NegInf"
| "float_sub (Finite a) NegInf = NFloat PosInf"
| "float_sub PosInf PosInf = NNaN"
| "float_sub PosInf y = NFloat PosInf"
| "float_sub NegInf NegInf = NNaN"
| "float_sub NegInf y = NFloat NegInf"

text \<open>The exceptions the two consumers can meet inside \<open>process_message\<close> and \<open>main\<close>.\<close>

datatype py_error =
    JSONDecodeError
  | TypeError
  | AttributeError
  | ValueError
  | OverflowError
  | UnicodeDecodeError
  | RecursionError

text \<open>\<open>float(i)\<close>, as arithmetic applies it to an int operand beside a float.\<close>

definition float_of_int :: "int \<Rightarrow> py_error + float64" where
  "float_of_int i =
     (case round64 (of_int i) of
        Finite q \<Rightarrow> Inr (Finite q)
      | _ \<Rightarrow> Inl OverflowError)"

text \<open>
  \<open>r <= t\<close> for a result \<open>r\<close> of a subtraction and a float \<open>t\<close>: an int and a float
  are compared by their exact values; NaN is below nothing.
\<close>

fun number_le :: "number \<Rightarrow> float64 \<Rightarrow> bool" where
  "number_le (NInt i) t = float_le (Finite (of_int i)) t"
| "number_le (NFloat x) t = float_le x t"
| "number_le NNaN t = False"

section \<open>Python values\<close>

text \<open>
  The value \<open>json.loads\<close> returns: \<open>None\<close>, a bool, an int, a float, a str, a list
  or a dict. A dict is the list of its items, each key once, read with \<open>map_of\<close>.
\<close>

datatype json =
    JNull
  | JBool bool
  | JInt int
  | JFloat float64
  | JStr string
  | JArr "json list"
  | JObj "(string \<times> json) list"

text \<open>\<open>d.get(key)\<close> and \<open>d.get(key, default)\<close> on a dict.\<close>

definition dict_get :: "(string \<times> json) list \<Rightarrow> string \<Rightarrow> json" where
  "dict_get d k = (case map_of d k of None \<Rightarrow> JNull | Some v \<Rightarrow> v)"

definition dict_get_default :: "(string \<times> json) list \<Rightarrow> string \<Rightarrow> json \<Rightarrow> json" where
  "dict_get_default d k dflt = (case map_of d k of None \<Rightarrow> dflt | Some v \<Rightarrow> v)"

subsection \<open>Comparison and subtraction\<close>

text \<open>
  The exact value of a number (an int, a float, or a bool, which is a subclass of int).
  Comparisons between numbers of any two of these types go by it.
\<close>

fun num_of :: "json \<Rightarrow> float64 option" where
  "num_of (JInt i) = Some (Finite (of_int i))"
| "num_of (JBool b) = Some (Finite (if b then 1 else 0))"
| "num_of (JFloat x) = Some x"
| "num_of _ = None"

text \<open>The int of a value of type int or bool.\<close>

fun int_of :: "json \<Rightarrow> int option" where
  "int_of (JInt i) = Some i"
| "int_of (JBool b) = Some (if b then 1 else 0)"
| "int_of _ = None"

text \<open>A number as a float operand: a float as it is, an int through \<open>float(i)\<close>.\<close>

definition as_float :: "json \<Rightarrow> py_error + float64" where
  "as_float a =
     (case a of
        JFloat x \<Rightarrow> Inr x
      | _ \<Rightarrow> (case int_of a of Some i \<Rightarrow> float_of_int i | None \<Rightarrow> Inl TypeError))"

text \<open>
  \<open>==\<close> never raises on these values: numbers by value, strings and lists
  elementwise, dicts key by key (same number of items, and every item of the left one has
  an equal value under its key in the right one).
\<close>

fun py_eq :: "json \<Rightarrow> json \<Rightarrow> bool"
  and py_eq_list :: "json list \<Rightarrow> json list \<Rightarrow> bool"
  and py_eq_items :: "(string \<times> json) list \<Rightarrow> (string \<times> json) list \<Rightarrow> bool"
where
  "py_eq JNull b = (b = JNull)"
| "py_eq (JBool x) b = (num_of b = num_of (JBool x))"
| "py_eq (JInt x) b = (num_of b = num_of (JInt x))"
| "py_eq (JFloat x) b = (num_of b = Some x)"
| "py_eq (JStr s) b = (b = JStr s)"
| "py_eq (JArr xs) b = (case b of JArr ys \<Rightarrow> py_eq_list xs ys | _ \<Rightarrow> False)"
| "py_eq (JObj xs) b =
     (case b of JObj ys \<Rightarrow> length xs = length ys \<and> py_eq_items xs ys | _ \<Rightarrow> False)"
| "py_eq_list [] ys = (ys = [])"
| "py_eq_list (x # xs) ys =
     (case ys of [] \<Rightarrow> False | y # ys' \<Rightarrow> py_eq x y \<and> py_eq_list xs ys')"
| "py_eq_items [] ys = True"
| "py_eq_items ((k, v) # xs) ys =
     ((case map_of ys k of None \<Rightarrow> False | Some w \<Rightarrow> py_eq v w) \<and> py_eq_items xs ys)"

text \<open>\<open>s < t\<close> on str: lexicographic, by code point.\<close>

fun str_lt :: "string \<Rightarrow> string \<Rightarrow> bool" where
  "str_lt [] [] = False"
| "str_lt [] (d # t) = True"
| "str_lt (c # s) [] = False"
| "str_lt (c # s) (d # t) =
     (if c = d then str_lt s t else (of_char c :: nat) < of_char d)"

text \<open>
  \<open>a < b\<close>: defined between two numbers (by their exact values), two strings and two
  lists (at the first index where the items differ; the shorter list when none does); a
  TypeError for every other pair.
\<close>

fun py_lt :: "json \<Rightarrow> json \<Rightarrow> py_error + bool"
  and py_lt_list :: "json list \<Rightarrow> json list \<Rightarrow> py_error + bool"
where
  "py_lt (JArr xs) b = (case b of JArr ys \<Rightarrow> py_lt_list xs ys | _ \<Rightarrow> Inl TypeError)"
| "py_lt (JStr s) b = (case b of JStr t \<Rightarrow> Inr (str_lt s t) | _ \<Rightarrow> Inl TypeError)"
| "py_lt (JInt x) b =
     (case num_of b of Some y \<Rightarrow> Inr (float_lt (Finite (of_int x)) y) | None \<Rightarrow> Inl TypeError)"
| "py_lt (JFloat x) b =
     (case num_of b of Some y \<Rightarrow> Inr (float_lt x y) | None \<Rightarrow> Inl TypeError)"
| "py_lt (JBool x) b =
     (case num_of b of
        Some y \<Rightarrow> Inr (float_lt (Finite (if x then 1 else 0)) y)
      | None \<Rightarrow> Inl TypeError)"
| "py_lt JNull b = Inl TypeError"
| "py_lt (JObj xs) b = Inl TypeError"
| "py_lt_list [] ys = Inr (ys \<noteq> [])"
| "py_lt_list (x # xs) ys =
     (case ys of
        [] \<Rightarrow> Inr False
      | y # ys' \<Rightarrow> if py_eq x y then py_lt_list xs ys' else py_lt x y)"

text \<open>\<open>a > b\<close> is the same comparison read from the right.\<close>

definition py_gt :: "json \<Rightarrow> json \<Rightarrow> py_error + bool" where
  "py_gt a b = py_lt b a"

text \<open>
  \<open>a - b\<close>: between numbers only. Two ints (or bools) give the exact int. Otherwise
  one operand is a float: the other, when it is an int, is converted with \<open>float(i)\<close>,
  which rounds it and raises OverflowError beyond the range of binary64, and the floats
  are subtracted.
\<close>

definition py_sub :: "json \<Rightarrow> json \<Rightarrow> py_error + number" where
  "py_sub a b =
     (case (num_of a, num_of b) of
        (Some _, Some _) \<Rightarrow>
          (case (int_of a, int_of b) of
             (Some i, Some j) \<Rightarrow> Inr (NInt (i - j))
           | _ \<Rightarrow>
               (case as_float a of
                  Inl e \<Rightarrow> Inl e
                | Inr x \<Rightarrow>
                    (case as_float b of
                       Inl e \<Rightarrow> Inl e
                     | Inr y \<Rightarrow> Inr (float_sub x y))))
      | _ \<Rightarrow> Inl TypeError)"

text \<open>
  The built-ins \<open>max\<close> and \<open>min\<close> over an iterable: the first item is the candidate,
  each later item replaces it when \<open>item > candidate\<close> (for \<open>min\<close>:
  \<open>item < candidate\<close>); a failing comparison propagates; no item is a ValueError.
\<close>

fun max_loop :: "json \<Rightarrow> json list \<Rightarrow> py_error + json" where
  "max_loop m [] = Inr m"
| "max_loop m (x # xs) =
     (case py_gt x m of
        Inl e \<Rightarrow> Inl e
      | Inr b \<Rightarrow> max_loop (if b then x else m) xs)"

fun min_loop :: "json \<Rightarrow> json list \<Rightarrow> py_error + json" where
  "min_loop m [] = Inr m"
| "min_loop m (x # xs) =
     (case py_lt x m of
        Inl e \<Rightarrow> Inl e
      | Inr b \<Rightarrow> min_loop (if b then x else m) xs)"

definition py_max :: "json list \<Rightarrow> py_error + json" where
  "py_max xs = (case xs of [] \<Rightarrow> Inl ValueError | x # xs' \<Rightarrow> max_loop x xs')"

definition py_min :: "json list \<Rightarrow> py_error + json" where
  "py_min xs = (case xs of [] \<Rightarrow> Inl ValueError | x # xs' \<Rightarrow> min_loop x xs')"

section \<open>The rolling window: \<open>collections.deque(maxlen=...)\<close>\<close>

record 'a deque =
  items :: "'a list"
  maxlen :: nat

text \<open>\<open>deque(maxlen=n)\<close>: empty; a negative \<open>maxlen\<close> is a ValueError.\<close>

definition deque_new :: "int \<Rightarrow> py_error + 'a deque" where
  "deque_new n = (if n < 0 then Inl ValueError else Inr \<lparr>items = [], maxlen = nat n\<rparr>)"

text \<open>
  \<open>d.append(x)\<close>: the item goes to the right end; when the deque is then longer than
  \<open>maxlen\<close>, one item is dropped from the left end.
\<close>

definition deque_append :: "'a deque \<Rightarrow> 'a \<Rightarrow> 'a deque" where
  "deque_append d x =
     (let ys = items d @ [x]
      in d\<lparr>items := (if maxlen d < length ys then tl ys else ys)\<rparr>)"

text \<open>A run of appends, in order.\<close>

fun appends :: "'a deque \<Rightarrow> 'a list \<Rightarrow> 'a deque" where
  "appends d [] = d"
| "appends d (x # xs) = appends (deque_append d x) xs"

section \<open>csv_consumer_prince.py\<close>

text \<open>
  The two settings \<open>detect_stall\<close> reads from the environment on every call
  (\<open>HEALTH_ROLLING_WINDOW_SIZE\<close>, default 5, and \<open>HEALTH_STALL_THRESHOLD_F\<close>,
  default 0.2), as the values \<open>int(...)\<close> and \<open>float(...)\<close> return (a threshold
  that is not NaN). The
  environment is taken as fixed and well-formed: \<open>main\<close> reads the window size first,
  outside any handler, so a run that reaches the loop has an integer there.
\<close>

record config =
  rolling_window_size :: int
  stall_threshold :: float64

definition detect_stall :: "config \<Rightarrow> json deque \<Rightarrow> py_error + bool" where
  "detect_stall cfg rolling_window_deque =
     (if int (length (items rolling_window_deque)) < rolling_window_size cfg then Inr False
      else
        (case py_max (items rolling_window_deque) of
           Inl e \<Rightarrow> Inl e
         | Inr mx \<Rightarrow>
             (case py_min (items rolling_window_deque) of
                Inl e \<Rightarrow> Inl e
              | Inr mn \<Rightarrow>
                  (case py_sub mx mn of
                     Inl e \<Rightarrow> Inl e
                   | Inr range_value \<Rightarrow> Inr (number_le range_value (stall_threshold cfg))))))"

text \<open>
  What \<open>process_message\<close> reports for one message: the stall line, nothing (no stall),
  the early return on a missing field, or the handler that caught an exception. The other
  log lines are not modelled.
\<close>

datatype outcome =
    Stall_detected json json int
  | No_stall
  | Invalid_message_format
  | JSON_decoding_error
  | Error_processing py_error

text \<open>
  \<open>process_message(message, rolling_window, window_size)\<close>. \<open>json.loads\<close> is the
  standard library's parser, taken as the parameter \<open>loads\<close>: the value for a text it
  accepts, the exception for one it does not. The function returns the deque as the call
  leaves it, and its report; no exception leaves it, the last handler catches them all.
\<close>

definition process_message ::
  "(string \<Rightarrow> py_error + json) \<Rightarrow> config \<Rightarrow> string \<Rightarrow>
     json deque \<Rightarrow> int \<Rightarrow> json deque \<times> outcome" where
  "process_message loads cfg message rolling_window window_size =
     (case loads message of
        Inl e \<Rightarrow>
          (rolling_window, if e = JSONDecodeError then JSON_decoding_error else Error_processing e)
      | Inr (JObj data) \<Rightarrow>
          (let timestamp = dict_get data ''timestamp'';
               steps = dict_get data ''steps'';
               heart_rate = dict_get data ''heart_rate'';
               calories_burned = dict_get data ''calories_burned'';
               sleep_hours = dict_get data ''sleep_hours'';
               hydration_liters = dict_get data ''hydration_liters''
           in if JNull \<in> set [timestamp, steps, heart_rate, calories_burned, sleep_hours,
                              hydration_liters]
              then (rolling_window, Invalid_message_format)
              else
                (let rolling_window' = deque_append rolling_window calories_burned
                 in case detect_stall cfg rolling_window' of
                      Inl e \<Rightarrow> (rolling_window', Error_processing e)
                    | Inr is_stalled \<Rightarrow>
                        (rolling_window',
                         if is_stalled then Stall_detected timestamp calories_burned window_size
                         else No_stall)))
      | Inr _ \<Rightarrow> (rolling_window, Error_processing AttributeError))"

text \<open>
  The loop of \<open>main\<close> over the messages the consumer yields. A message value is a str
  or bytes; bytes are decoded as UTF-8 first (the parameter \<open>decode\<close>), and a failing
  decode ends the loop in the handler of \<open>main\<close>. The result is the deque at the end,
  the reports in order, and the exception that ended the loop, if one did.
\<close>

datatype message_value = Str string | Bytes string

fun consume ::
  "(string \<Rightarrow> py_error + json) \<Rightarrow> (string \<Rightarrow> py_error + string) \<Rightarrow>
     config \<Rightarrow> int \<Rightarrow> message_value list \<Rightarrow> json deque \<Rightarrow>
     json deque \<times> outcome list \<times> py_error option" where
  "consume loads decode cfg window_size [] rolling_window = (rolling_window, [], None)"
| "consume loads decode cfg window_size (value # rest) rolling_window =
     (case (case value of Str s \<Rightarrow> Inr s | Bytes b \<Rightarrow> decode b) of
        Inl e \<Rightarrow> (rolling_window, [], Some e)
      | Inr message_str \<Rightarrow>
          (let (rolling_window', out) =
                 process_message loads cfg message_str rolling_window window_size;
               (rolling_window'', outs, err) =
                 consume loads decode cfg window_size rest rolling_window'
           in (rolling_window'', out # outs, err)))"

text \<open>
  \<open>main\<close>: the window size is read once, the deque is made with it (outside any
  handler, so its ValueError ends the program), then the loop runs.
\<close>

definition main ::
  "(string \<Rightarrow> py_error + json) \<Rightarrow> (string \<Rightarrow> py_error + string) \<Rightarrow>
     config \<Rightarrow> message_value list \<Rightarrow>
     py_error + json deque \<times> outcome list \<times> py_error option" where
  "main loads decode cfg messages =
     (let window_size = rolling_window_size cfg
      in case deque_new window_size of
           Inl e \<Rightarrow> Inl e
         | Inr rolling_window \<Rightarrow> Inr (consume loads decode cfg window_size messages rolling_window))"

section \<open>json_consumer_prince.py\<close>

text \<open>
  \<open>stock_prices = defaultdict(list)\<close>. A dict key is a hashable value, and keys that
  are equal are one key: \<open>None\<close>, a number by its exact value (\<open>True\<close>, \<open>1\<close> and
  \<open>1.0\<close> are the key 1) or a str. A list or a dict is unhashable, a TypeError.
\<close>

datatype key = KNone | KNum float64 | KStr string

fun hash_key :: "json \<Rightarrow> py_error + key" where
  "hash_key JNull = Inr KNone"
| "hash_key (JBool b) = Inr (KNum (Finite (if b then 1 else 0)))"
| "hash_key (JInt i) = Inr (KNum (Finite (of_int i)))"
| "hash_key (JFloat x) = Inr (KNum x)"
| "hash_key (JStr s) = Inr (KStr s)"
| "hash_key (JArr xs) = Inl TypeError"
| "hash_key (JObj xs) = Inl TypeError"

type_synonym stock_prices = "key \<rightharpoonup> json list"

text \<open>\<open>stock_prices[symbol]\<close>: the list stored for the key, a new empty one when there is none.\<close>

definition series :: "stock_prices \<Rightarrow> key \<Rightarrow> json list" where
  "series sp k = (case sp k of None \<Rightarrow> [] | Some vs \<Rightarrow> vs)"

text \<open>\<open>stock_prices[symbol].append(price)\<close>.\<close>

definition series_append :: "stock_prices \<Rightarrow> key \<Rightarrow> json \<Rightarrow> stock_prices" where
  "series_append sp k v = sp(k \<mapsto> series sp k @ [v])"

datatype update =
    Updated_prices key "json list"
  | Expected_dictionary
  | Invalid_JSON
  | Error_processing_message py_error

text \<open>
  \<open>process_message(message)\<close> of the JSON consumer, on the module's \<open>stock_prices\<close>:
  the store as the call leaves it, and the report (the updated list of the symbol, or the
  error line).
\<close>

definition process_stock_message ::
  "(string \<Rightarrow> py_error + json) \<Rightarrow> string \<Rightarrow> stock_prices \<Rightarrow>
     stock_prices \<times> update" where
  "process_stock_message loads message stock_prices =
     (case loads message of
        Inl e \<Rightarrow>
          (stock_prices, if e = JSONDecodeError then Invalid_JSON else Error_processing_message e)
      | Inr (JObj message_dict) \<Rightarrow>
          (let symbol = dict_get_default message_dict ''symbol'' (JStr ''unknown'');
               price = dict_get_default message_dict ''price'' (JFloat (Finite 0));
               timestamp = dict_get_default message_dict ''timestamp'' (JStr ''unknown_time'')
           in case hash_key symbol of
                Inl e \<Rightarrow> (stock_prices, Error_processing_message e)
              | Inr k \<Rightarrow>
                  (let stock_prices' = series_append stock_prices k price
                   in (stock_prices', Updated_prices k (series stock_prices' k))))
      | Inr _ \<Rightarrow> (stock_prices, Expected_dictionary))"

text \<open>The loop of its \<open>main\<close>: every message value goes to \<open>process_message\<close> as it is.\<close>

fun consume_stock ::
  "(string \<Rightarrow> py_error + json) \<Rightarrow> string list \<Rightarrow> stock_prices \<Rightarrow>
     stock_prices \<times> update list" where
  "consume_stock loads [] stock_prices = (stock_prices, [])"
| "consume_stock loads (message_str # rest) stock_prices =
     (let (stock_prices', out) = process_stock_message loads message_str stock_prices;
          (stock_prices'', outs) = consume_stock loads rest stock_prices'
      in (stock_prices'', out # outs))"

section \<open>Vocabulary of the statements\<close>

text \<open>The six fields the health consumer tests for \<open>None\<close>, in the order of its tuple.\<close>

definition required_fields :: "string list" where
  "required_fields =
     [''timestamp'', ''steps'', ''heart_rate'', ''calories_burned'', ''sleep_hours'',
      ''hydration_liters'']"

text \<open>\<open>isinstance(message_dict, dict)\<close>.\<close>

fun is_dict :: "json \<Rightarrow> bool" where
  "is_dict (JObj d) = True"
| "is_dict _ = False"

text \<open>The store when the module is loaded: \<open>defaultdict(list)\<close>, no key yet.\<close>

definition stock_prices_initial :: stock_prices where
  "stock_prices_initial = Map.empty"

subsection \<open>Message texts of the examples\<close>

definition health_text :: string where
  \<open>health_text = ''{"timestamp": "2025-01-11T18:15:00Z", "steps": 12500, "heart_rate": 80, "calories_burned": 450.0, "sleep_hours": 7.0, "hydration_liters": 2.5}''\<close>

definition health_text_no_sleep :: string where
  \<open>health_text_no_sleep = ''{"timestamp": "2025-01-11T18:15:00Z", "steps": 12500, "heart_rate": 80, "calories_burned": 450.0, "hydration_liters": 2.5}''\<close>

definition health_text_word :: string where
  \<open>health_text_word = ''{"timestamp": "2025-01-11T18:15:00Z", "steps": 12500, "heart_rate": 80, "calories_burned": "n/a", "sleep_hours": 7.0, "hydration_liters": 2.5}''\<close>

definition health_text_int :: string where
  \<open>health_text_int = ''{"timestamp": "2025-01-11T18:16:00Z", "steps": 12600, "heart_rate": 82, "calories_burned": 451, "sleep_hours": 7.0, "hydration_liters": 2.5}''\<close>

definition stock_text :: string where
  \<open>stock_text = ''{"timestamp": "2025-01-25T10:00:00", "symbol": "AAPL", "price": 150.25}''\<close>

definition stock_text_msft :: string where
  \<open>stock_text_msft = ''{"timestamp": "2025-01-25T10:00:01", "symbol": "MSFT", "price": 310.5}''\<close>

definition stock_text_no_price :: string where
  \<open>stock_text_no_price = ''{"timestamp": "2025-01-25T10:00:00", "symbol": "AAPL"}''\<close>

definition stock_text_list_symbol :: string where
  \<open>stock_text_list_symbol = ''{"symbol": ["AAPL"]}''\<close>

definition stock_text_word :: string where
  \<open>stock_text_word = ''{"timestamp": "2025-01-25T10:00:00", "symbol": "AAPL", "price": "abc"}''\<close>

definition list_text :: string where
  "list_text = ''[1, 2]''"

definition bad_text :: string where
  "bad_text = ''{not json''"

text \<open>
  \<open>json.loads\<close> on these texts, for the examples: each text with what the parser
  returns for it (a literal with a fraction or an exponent is a float, the others are
  ints; every float literal here is a binary fraction, so it is its own binary64 value).
  A text that is not in the table is given the decoding error too; the examples apply the
  table to its own texts only.
\<close>

definition sample_table :: "(string \<times> (py_error + json)) list" where
  "sample_table =
     [(health_text,
       Inr (JObj [(''timestamp'', JStr ''2025-01-11T18:15:00Z''), (''steps'', JInt 12500),
                  (''heart_rate'', JInt 80), (''calories_burned'', JFloat (Finite 450)),
                  (''sleep_hours'', JFloat (Finite 7)),
                  (''hydration_liters'', JFloat (Finite (5 / 2)))])),
      (health_text_no_sleep,
       Inr (JObj [(''timestamp'', JStr ''2025-01-11T18:15:00Z''), (''steps'', JInt 12500),
                  (''heart_rate'', JInt 80), (''calories_burned'', JFloat (Finite 450)),
                  (''hydration_liters'', JFloat (Finite (5 / 2)))])),
      (health_text_word,
       Inr (JObj [(''timestamp'', JStr ''2025-01-11T18:15:00Z''), (''steps'', JInt 12500),
                  (''heart_rate'', JInt 80), (''calories_burned'', JStr ''n/a''),
                  (''sleep_hours'', JFloat (Finite 7)),
                  (''hydration_liters'', JFloat (Finite (5 / 2)))])),
      (health_text_int,
       Inr (JObj [(''timestamp'', JStr ''2025-01-11T18:16:00Z''), (''steps'', JInt 12600),
                  (''heart_rate'', JInt 82), (''calories_burned'', JInt 451),
                  (''sleep_hours'', JFloat (Finite 7)),
                  (''hydration_liters'', JFloat (Finite (5 / 2)))])),
      (stock_text,
       Inr (JObj [(''timestamp'', JStr ''2025-01-25T10:00:00''), (''symbol'', JStr ''AAPL''),
                  (''price'', JFloat (Finite (601 / 4)))])),
      (stock_text_msft,
       Inr (JObj [(''timestamp'', JStr ''2025-01-25T10:00:01''), (''symbol'', JStr ''MSFT''),
                  (''price'', JFloat (Finite (621 / 2)))])),
      (stock_text_no_price,
       Inr (JObj [(''timestamp'', JStr ''2025-01-25T10:00:00''), (''symbol'', JStr ''AAPL'')])),
      (stock_text_list_symbol,
       Inr (JObj [(''symbol'', JArr [JStr ''AAPL''])])),
      (stock_text_word,
       Inr (JObj [(''timestamp'', JStr ''2025-01-25T10:00:00''), (''symbol'', JStr ''AAPL''),
                  (''price'', JStr ''abc'')])),
      (list_text, Inr (JArr [JInt 1, JInt 2])),
      (bad_text, Inl JSONDecodeError)]"

definition sample_loads :: "string \<Rightarrow> py_error + json" where
  "sample_loads s = (case map_of sample_table s of None \<Rightarrow> Inl JSONDecodeError | Some r \<Rightarrow> r)"

text \<open>
  The settings of the examples: a window of 3 and the default threshold,
  \<open>float("0.2")\<close>.
\<close>

definition sample_config :: config where
  "sample_config = \<lparr>rolling_window_size = 3, stall_threshold = round64 (1 / 5)\<rparr>"






section \<open>The deque is a bounded FIFO\<close>

lemma maxlen_deque_append: "maxlen (deque_append d x) = maxlen d"
  by (simp add: deque_append_def Let_def)

lemma items_deque_append:
  "items (deque_append d x) =
     (if length (items d) < maxlen d then items d @ [x] else tl (items d @ [x]))"
  by (simp add: deque_append_def Let_def)

lemma length_deque_append:
  "length (items d) \<le> maxlen d \<Longrightarrow> length (items (deque_append d x)) \<le> maxlen d"
  by (simp add: items_deque_append)

lemma maxlen_appends: "maxlen (appends d vs) = maxlen d"
  by (induction vs arbitrary: d) (simp_all add: maxlen_deque_append)

lemma length_appends:
  "length (items d) \<le> maxlen d \<Longrightarrow> length (items (appends d vs)) \<le> maxlen d"
proof (induction vs arbitrary: d)
  case Nil
  then show ?case by simp
next
  case (Cons v vs)
  have "length (items (appends (deque_append d v) vs)) \<le> maxlen (deque_append d v)"
    by (rule Cons.IH) (simp add: maxlen_deque_append length_deque_append Cons.prems)
  then show ?case by (simp add: maxlen_deque_append)
qed

text \<open>
  After any run of appends the deque holds the last \<open>maxlen\<close> items of what it held
  followed by what was appended.
\<close>

lemma items_appends:
  "length (items d) \<le> maxlen d \<Longrightarrow>
     items (appends d vs) = drop (length (items d) + length vs - maxlen d) (items d @ vs)"
proof (induction vs arbitrary: d)
  case Nil
  then show ?case by simp
next
  case (Cons v vs)
  let ?d = "deque_append d v"
  have inv: "length (items ?d) \<le> maxlen ?d"
    by (simp add: maxlen_deque_append length_deque_append Cons.prems)
  have step: "items (appends ?d vs) =
      drop (length (items ?d) + length vs - maxlen d) (items ?d @ vs)"
    using Cons.IH [OF inv] by (simp add: maxlen_deque_append)
  show ?case
  proof (cases "length (items d) < maxlen d")
    case True
    then have "items ?d = items d @ [v]" by (simp add: items_deque_append)
    with step show ?thesis by simp
  next
    case False
    with Cons.prems have full: "length (items d) = maxlen d" by simp
    have it: "items ?d = tl (items d @ [v])" using False by (simp add: items_deque_append)
    have "items (appends ?d vs) = drop (length vs) (tl (items d @ [v]) @ vs)"
      using step it full by simp
    also have "tl (items d @ [v]) @ vs = tl (items d @ v # vs)"
      by (cases "items d") simp_all
    also have "drop (length vs) (tl (items d @ v # vs)) = drop (Suc (length vs)) (items d @ v # vs)"
      by (simp only: drop_Suc)
    finally show ?thesis using full by simp
  qed
qed

lemma deque_new_empty: "deque_new n = Inr d \<Longrightarrow> items d = [] \<and> maxlen d = nat n"
  by (auto simp: deque_new_def split: if_splits)

section \<open>What one message does\<close>

subsection \<open>The texts of the examples\<close>

lemma sample_loads_simps:
  "sample_loads health_text =
     Inr (JObj [(''timestamp'', JStr ''2025-01-11T18:15:00Z''), (''steps'', JInt 12500),
                (''heart_rate'', JInt 80), (''calories_burned'', JFloat (Finite 450)),
                (''sleep_hours'', JFloat (Finite 7)),
                (''hydration_liters'', JFloat (Finite (5 / 2)))])"
  "sample_loads health_text_no_sleep =
     Inr (JObj [(''timestamp'', JStr ''2025-01-11T18:15:00Z''), (''steps'', JInt 12500),
                (''heart_rate'', JInt 80), (''calories_burned'', JFloat (Finite 450)),
                (''hydration_liters'', JFloat (Finite (5 / 2)))])"
  "sample_loads health_text_word =
     Inr (JObj [(''timestamp'', JStr ''2025-01-11T18:15:00Z''), (''steps'', JInt 12500),
                (''heart_rate'', JInt 80), (''calories_burned'', JStr ''n/a''),
                (''sleep_hours'', JFloat (Finite 7)),
                (''hydration_liters'', JFloat (Finite (5 / 2)))])"
  "sample_loads health_text_int =
     Inr (JObj [(''timestamp'', JStr ''2025-01-11T18:16:00Z''), (''steps'', JInt 12600),
                (''heart_rate'', JInt 82), (''calories_burned'', JInt 451),
                (''sleep_hours'', JFloat (Finite 7)),
                (''hydration_liters'', JFloat (Finite (5 / 2)))])"
  "sample_loads stock_text =
     Inr (JObj [(''timestamp'', JStr ''2025-01-25T10:00:00''), (''symbol'', JStr ''AAPL''),
                (''price'', JFloat (Finite (601 / 4)))])"
  "sample_loads stock_text_msft =
     Inr (JObj [(''timestamp'', JStr ''2025-01-25T10:00:01''), (''symbol'', JStr ''MSFT''),
                (''price'', JFloat (Finite (621 / 2)))])"
  "sample_loads stock_text_no_price =
     Inr (JObj [(''timestamp'', JStr ''2025-01-25T10:00:00''), (''symbol'', JStr ''AAPL'')])"
  "sample_loads stock_text_list_symbol = Inr (JObj [(''symbol'', JArr [JStr ''AAPL''])])"
  "sample_loads stock_text_word =
     Inr (JObj [(''timestamp'', JStr ''2025-01-25T10:00:00''), (''symbol'', JStr ''AAPL''),
                (''price'', JStr ''abc'')])"
  "sample_loads list_text = Inr (JArr [JInt 1, JInt 2])"
  "sample_loads bad_text = Inl JSONDecodeError"
  by (simp_all add: sample_loads_def sample_table_def health_text_def health_text_no_sleep_def
      health_text_word_def health_text_int_def stock_text_def stock_text_msft_def
      stock_text_no_price_def stock_text_list_symbol_def stock_text_word_def list_text_def
      bad_text_def)

subsection \<open>The health consumer\<close>

lemma dict_get_JNull:
  "dict_get d f = JNull \<longleftrightarrow> map_of d f = None \<or> map_of d f = Some JNull"
  by (simp add: dict_get_def split: option.splits)

lemma process_message_error:
  "loads m = Inl e \<Longrightarrow>
     process_message loads cfg m rw ws =
       (rw, if e = JSONDecodeError then JSON_decoding_error else Error_processing e)"
  by (simp add: process_message_def)

lemma process_message_non_object:
  "loads m = Inr j \<Longrightarrow> \<not> is_dict j \<Longrightarrow>
     process_message loads cfg m rw ws = (rw, Error_processing AttributeError)"
  by (cases j) (simp_all add: process_message_def)

lemma process_message_incomplete:
  assumes "loads m = Inr (JObj d)" and "f \<in> set required_fields" and "dict_get d f = JNull"
  shows "process_message loads cfg m rw ws = (rw, Invalid_message_format)"
proof -
  from assms(2,3) have
    "dict_get d ''timestamp'' = JNull \<or> dict_get d ''steps'' = JNull \<or>
     dict_get d ''heart_rate'' = JNull \<or> dict_get d ''calories_burned'' = JNull \<or>
     dict_get d ''sleep_hours'' = JNull \<or> dict_get d ''hydration_liters'' = JNull"
    by (auto simp: required_fields_def)
  then show ?thesis using assms(1)
    by (auto simp: process_message_def Let_def)
qed

lemma process_message_complete:
  assumes "loads m = Inr (JObj d)" and "\<forall>f \<in> set required_fields. dict_get d f \<noteq> JNull"
  shows "process_message loads cfg m rw ws =
           (deque_append rw (dict_get d ''calories_burned''),
            case detect_stall cfg (deque_append rw (dict_get d ''calories_burned'')) of
              Inl e \<Rightarrow> Error_processing e
            | Inr is_stalled \<Rightarrow>
                if is_stalled
                then Stall_detected (dict_get d ''timestamp'') (dict_get d ''calories_burned'') ws
                else No_stall)"
proof -
  from assms(2) have "JNull \<notin> set [dict_get d ''timestamp'', dict_get d ''steps'',
      dict_get d ''heart_rate'', dict_get d ''calories_burned'', dict_get d ''sleep_hours'',
      dict_get d ''hydration_liters'']"
    by (auto simp: required_fields_def)
  then show ?thesis using assms(1)
    by (simp add: process_message_def Let_def split: sum.splits)
qed

lemma consume_Str:
  "consume loads decode cfg ws (Str m # rest) rw =
     (case consume loads decode cfg ws rest (fst (process_message loads cfg m rw ws)) of
        (rw', outs, err) \<Rightarrow> (rw', snd (process_message loads cfg m rw ws) # outs, err))"
  by (simp add: case_prod_beta Let_def)

text \<open>
  Whatever the message, the deque is left as it was or with one value appended, so it
  keeps its bound through the loop.
\<close>

lemma process_message_window:
  "fst (process_message loads cfg m rw ws) = rw \<or>
   (\<exists>v. fst (process_message loads cfg m rw ws) = deque_append rw v)"
proof (cases "loads m")
  case (Inl e)
  then show ?thesis by (simp add: process_message_error)
next
  case (Inr j)
  show ?thesis
  proof (cases "is_dict j")
    case False
    with Inr show ?thesis by (simp add: process_message_non_object)
  next
    case True
    then obtain d where j: "j = JObj d" by (cases j) simp_all
    show ?thesis
    proof (cases "\<forall>f \<in> set required_fields. dict_get d f \<noteq> JNull")
      case True
      with Inr j have "fst (process_message loads cfg m rw ws) =
          deque_append rw (dict_get d ''calories_burned'')"
        by (simp add: process_message_complete)
      then show ?thesis by blast
    next
      case False
      then obtain f where "f \<in> set required_fields" "dict_get d f = JNull" by blast
      with Inr j show ?thesis by (simp add: process_message_incomplete)
    qed
  qed
qed

lemma process_message_bounded:
  assumes "length (items rw) \<le> maxlen rw"
  shows "length (items (fst (process_message loads cfg m rw ws))) \<le> maxlen rw \<and>
         maxlen (fst (process_message loads cfg m rw ws)) = maxlen rw"
  using process_message_window [of loads cfg m rw ws] assms
  by (auto simp: maxlen_deque_append length_deque_append)

lemma consume_bounded:
  assumes "length (items rw) \<le> maxlen rw"
  shows "length (items (fst (consume loads decode cfg ws msgs rw))) \<le> maxlen rw"
  using assms
proof (induction msgs arbitrary: rw)
  case Nil
  then show ?case by simp
next
  case (Cons v msgs)
  show ?case
  proof (cases "case v of Str s \<Rightarrow> Inr s | Bytes b \<Rightarrow> decode b")
    case (Inl e)
    with Cons.prems show ?thesis by simp
  next
    case (Inr s)
    let ?rw = "fst (process_message loads cfg s rw ws)"
    have b: "length (items ?rw) \<le> maxlen ?rw" "maxlen ?rw = maxlen rw"
      using process_message_bounded [OF Cons.prems, of loads cfg s ws] by simp_all
    have "length (items (fst (consume loads decode cfg ws msgs ?rw))) \<le> maxlen ?rw"
      by (rule Cons.IH [OF b(1)])
    with Inr b(2) show ?thesis
      by (simp add: case_prod_beta Let_def)
  qed
qed

text \<open>
  A run of complete messages appends their calorie values in order.
\<close>

lemma consume_complete:
  assumes "list_all2 (\<lambda>m v. \<exists>d. loads m = Inr (JObj d) \<and>
              (\<forall>f \<in> set required_fields. dict_get d f \<noteq> JNull) \<and>
              dict_get d ''calories_burned'' = v) ms vs"
  shows "fst (consume loads decode cfg ws (map Str ms) rw) = appends rw vs \<and>
         snd (snd (consume loads decode cfg ws (map Str ms) rw)) = None"
  using assms
proof (induction ms vs arbitrary: rw rule: list_all2_induct)
  case Nil
  then show ?case by simp
next
  case (Cons m ms v vs)
  from Cons.hyps(1) obtain d where d: "loads m = Inr (JObj d)"
    "\<forall>f \<in> set required_fields. dict_get d f \<noteq> JNull" "dict_get d ''calories_burned'' = v"
    by blast
  have step: "fst (process_message loads cfg m rw ws) = deque_append rw v"
    using process_message_complete [of loads m d cfg rw ws] d by simp
  show ?case
    using Cons.IH [of "deque_append rw v"]
    by (simp add: consume_Str step case_prod_beta del: consume.simps)
qed

subsection \<open>The stock consumer\<close>

lemma series_series_append:
  "series (series_append sp k v) k' = (if k' = k then series sp k @ [v] else series sp k')"
  by (simp add: series_append_def series_def)

lemma process_stock_message_object:
  assumes "loads m = Inr (JObj d)"
    and "hash_key (dict_get_default d ''symbol'' (JStr ''unknown'')) = Inr k"
  shows "process_stock_message loads m sp =
           (series_append sp k (dict_get_default d ''price'' (JFloat (Finite 0))),
            Updated_prices k (series sp k @ [dict_get_default d ''price'' (JFloat (Finite 0))]))"
  using assms by (simp add: process_stock_message_def Let_def series_series_append)

lemma process_stock_message_dict:
  assumes "loads m = Inr (JObj d)"
  shows "process_stock_message loads m sp =
           (case hash_key (dict_get_default d ''symbol'' (JStr ''unknown'')) of
              Inl e \<Rightarrow> (sp, Error_processing_message e)
            | Inr k \<Rightarrow>
                (series_append sp k (dict_get_default d ''price'' (JFloat (Finite 0))),
                 Updated_prices k
                   (series sp k @ [dict_get_default d ''price'' (JFloat (Finite 0))])))"
  using assms
  by (simp add: process_stock_message_def Let_def series_series_append split: sum.splits)

lemma process_stock_message_error:
  "loads m = Inl e \<Longrightarrow>
     process_stock_message loads m sp =
       (sp, if e = JSONDecodeError then Invalid_JSON else Error_processing_message e)"
  by (simp add: process_stock_message_def)

lemma process_stock_message_non_object:
  "loads m = Inr j \<Longrightarrow> \<not> is_dict j \<Longrightarrow>
     process_stock_message loads m sp = (sp, Expected_dictionary)"
  by (cases j) (simp_all add: process_stock_message_def)

lemma consume_stock_Cons:
  "consume_stock loads (m # rest) sp =
     (fst (consume_stock loads rest (fst (process_stock_message loads m sp))),
      snd (process_stock_message loads m sp) #
        snd (consume_stock loads rest (fst (process_stock_message loads m sp))))"
  by (simp add: case_prod_beta Let_def)

lemma series_consume_stock:
  assumes "list_all2 (\<lambda>m r. \<exists>d. loads m = Inr (JObj d) \<and>
              hash_key (dict_get_default d ''symbol'' (JStr ''unknown'')) = Inr (fst r) \<and>
              dict_get_default d ''price'' (JFloat (Finite 0)) = snd r) ms rs"
  shows "series (fst (consume_stock loads ms sp)) k =
           series sp k @ map snd (filter (\<lambda>r. fst r = k) rs)"
  using assms
proof (induction ms rs arbitrary: sp rule: list_all2_induct)
  case Nil
  then show ?case by simp
next
  case (Cons m ms r rs)
  from Cons.hyps(1) obtain d where d: "loads m = Inr (JObj d)"
    "hash_key (dict_get_default d ''symbol'' (JStr ''unknown'')) = Inr (fst r)"
    "dict_get_default d ''price'' (JFloat (Finite 0)) = snd r"
    by blast
  have step: "fst (process_stock_message loads m sp) = series_append sp (fst r) (snd r)"
    using process_stock_message_object [of loads m d "fst r" sp] d by simp
  show ?case
    unfolding consume_stock_Cons fst_conv step Cons.IH
    by (simp add: series_series_append)
qed

section \<open>The rolling window\<close>

text \<open>
  C3. \<open>main\<close> makes the deque with \<open>maxlen = w\<close>, \<open>w \<ge> 1\<close>, and
  \<open>process_message\<close> appends the calorie value of every complete message. After
  \<open>w + k\<close> such messages, \<open>k \<ge> 1\<close>, the deque holds exactly the last \<open>w\<close> values
  in arrival order; and after any list of messages whatever (so at every point of a run)
  it holds at most \<open>w\<close> items.
\<close>

theorem window_fifo:
  assumes "rolling_window_size cfg = int w" and "1 \<le> w"
    and "length vs = w + k" and "1 \<le> k"
    and "list_all2 (\<lambda>m v. \<exists>d. loads m = Inr (JObj d) \<and>
              (\<forall>f \<in> set required_fields. dict_get d f \<noteq> JNull) \<and>
              dict_get d ''calories_burned'' = v) ms vs"
  shows "(case main loads decode cfg (map Str ms) of
            Inl e \<Rightarrow> False
          | Inr (rolling_window, outs, err) \<Rightarrow>
              items rolling_window = drop k vs \<and> length (items rolling_window) = w \<and>
              err = None) \<and>
         (\<forall>msgs. case main loads decode cfg msgs of
            Inl e \<Rightarrow> False
          | Inr (rolling_window, outs, err) \<Rightarrow> length (items rolling_window) \<le> w)"
proof -
  let ?d0 = "\<lparr>items = [], maxlen = w\<rparr> :: json deque"
  have main_eq: "main loads decode cfg msgs = Inr (consume loads decode cfg (int w) msgs ?d0)"
    for msgs
    using assms(1) by (simp add: main_def deque_new_def Let_def)
  have run: "fst (consume loads decode cfg (int w) (map Str ms) ?d0) = appends ?d0 vs"
    "snd (snd (consume loads decode cfg (int w) (map Str ms) ?d0)) = None"
    using consume_complete [OF assms(5), of decode cfg "int w" ?d0] by simp_all
  have last: "items (appends ?d0 vs) = drop k vs"
    using assms(3) by (simp add: items_appends)
  have bound: "length (items (fst (consume loads decode cfg (int w) msgs ?d0))) \<le> w" for msgs
    using consume_bounded [of ?d0 loads decode cfg "int w" msgs] by simp
  from run last assms(3) have first:
    "case main loads decode cfg (map Str ms) of
       Inl e \<Rightarrow> False
     | Inr (rolling_window, outs, err) \<Rightarrow>
         items rolling_window = drop k vs \<and> length (items rolling_window) = w \<and> err = None"
    by (simp add: main_eq case_prod_beta)
  from bound have second:
    "\<forall>msgs. case main loads decode cfg msgs of
       Inl e \<Rightarrow> False
     | Inr (rolling_window, outs, err) \<Rightarrow> length (items rolling_window) \<le> w"
    by (simp add: main_eq case_prod_beta)
  from first second show ?thesis by blast
qed

theorem window_fifo_witness:
  "(case main sample_loads Inr sample_config
          (map Str [health_text, health_text_int, health_text, health_text_int]) of
      Inl e \<Rightarrow> False
    | Inr (rolling_window, outs, err) \<Rightarrow>
        items rolling_window = [JInt 451, JFloat (Finite 450), JInt 451] \<and> err = None)"
proof -
  have a: "rolling_window_size sample_config = int 3"
    by (simp add: sample_config_def)
  have b: "(1::nat) \<le> 3" by simp
  have c: "length [JFloat (Finite 450), JInt 451, JFloat (Finite 450), JInt 451] = 3 + 1"
    by simp
  have d: "(1::nat) \<le> 1" by simp
  have e: "list_all2 (\<lambda>m v. \<exists>d. sample_loads m = Inr (JObj d) \<and>
              (\<forall>f \<in> set required_fields. dict_get d f \<noteq> JNull) \<and>
              dict_get d ''calories_burned'' = v)
          [health_text, health_text_int, health_text, health_text_int]
          [JFloat (Finite 450), JInt 451, JFloat (Finite 450), JInt 451]"
    by (simp add: sample_loads_simps required_fields_def dict_get_def)
  from window_fifo [OF a b c d e, of Inr, THEN conjunct1]
  show ?thesis by (auto split: sum.splits prod.splits)
qed

section \<open>The stall detector\<close>

text \<open>
  C2. With a window size \<open>w \<ge> 1\<close>, after fewer than \<open>w\<close> values have been appended
  to the deque \<open>main\<close> makes, \<open>detect_stall\<close> returns \<open>False\<close>, whatever the values are
  (numbers or not).
\<close>

theorem cold_start:
  assumes "deque_new (rolling_window_size cfg) = Inr d0"
    and "1 \<le> rolling_window_size cfg"
    and "int (length vs) < rolling_window_size cfg"
  shows "detect_stall cfg (appends d0 vs) = Inr False"
proof -
  from assms(1) have d0: "items d0 = []" "maxlen d0 = nat (rolling_window_size cfg)"
    using deque_new_empty [of "rolling_window_size cfg" d0] by simp_all
  have "items (appends d0 vs) = vs"
    using assms(3) d0 by (simp add: items_appends)
  then show ?thesis using assms(3) by (simp add: detect_stall_def)
qed

theorem cold_start_witness:
  "deque_new (rolling_window_size sample_config) = Inr \<lparr>items = ([] :: json list), maxlen = 3\<rparr> \<and>
   detect_stall sample_config
     (appends \<lparr>items = [], maxlen = 3\<rparr> [JFloat (Finite 450), JStr ''n/a'']) = Inr False"
proof -
  have a: "deque_new (rolling_window_size sample_config) = Inr \<lparr>items = ([] :: json list), maxlen = 3\<rparr>"
    by (simp add: deque_new_def sample_config_def)
  have b: "1 \<le> rolling_window_size sample_config"
    by (simp add: sample_config_def)
  have c: "int (length [JFloat (Finite 450), JStr ''n/a'']) < rolling_window_size sample_config"
    by (simp add: sample_config_def)
  from a cold_start [OF a b c] show ?thesis by simp
qed











text \<open>
  The default threshold: \<open>float("0.2")\<close> is the binary64 value just above 1/5.
\<close>

lemma default_threshold:
  "round64 (1 / 5) = Finite (3602879701896397 / 18014398509481984)"
  by code_simp

text \<open>
  Windows that mix ints and floats: \<open>max\<close> and \<open>min\<close> compare exact values, and
  the subtraction converts the int operand to float first. So \<open>[2^53 + 1, 2^53.0, 2^53.0]\<close>
  has the float range 0.0 (the int rounds to \<open>2^53\<close>), where the same three values as
  ints have the range 1; and on \<open>[2^1024, 1.0, 1.0]\<close> the conversion raises
  OverflowError, which \<open>process_message\<close> catches.
\<close>

lemma mixed_window_examples:
  "detect_stall \<lparr>rolling_window_size = 3, stall_threshold = Finite 0\<rparr>
     \<lparr>items = [JInt (2 ^ 53 + 1), JFloat (Finite (2 ^ 53)), JFloat (Finite (2 ^ 53))], maxlen = 3\<rparr>
     = Inr True"
  "detect_stall \<lparr>rolling_window_size = 3, stall_threshold = Finite 0\<rparr>
     \<lparr>items = [JInt (2 ^ 53 + 1), JInt (2 ^ 53), JInt (2 ^ 53)], maxlen = 3\<rparr>
     = Inr False"
  by code_simp+

lemma bit_length_pow2: "bit_length (2 ^ n) = int n + 1"
proof (induction n)
  case 0
  show ?case by (simp add: bit_length.simps)
next
  case (Suc n)
  have "bit_length (2 ^ Suc n) = 1 + bit_length (2 ^ Suc n div 2)"
    by (subst bit_length.simps) simp
  with Suc show ?case by simp
qed

lemma round64_overflow: "round64 (2 ^ 1024) = PosInf"
proof -
  have fl: "floor_log2 (2 ^ 1024) = 1024"
    using bit_length_pow2 [of 1024]
    by (simp add: floor_log2_def del: power_numeral)
  have p: "pow2 972 = 2 ^ 972"
    by (simp add: pow2_def del: power_numeral)
  have q: "(2::rat) ^ 1024 / 2 ^ 972 = 2 ^ 52"
    by (simp add: power_diff [symmetric] del: power_numeral)
  have m: "round_half_even (2 ^ 52) = 2 ^ 52"
    by (simp add: round_half_even_def Let_def)
  have b: "bit_length (2 ^ 52) = 53"
    using bit_length_pow2 [of 52] by simp
  show ?thesis
    unfolding round64_def Let_def
    apply (simp only: fl abs_of_nonneg zero_le_numeral zero_le_power)
    apply (simp add: p q m b del: power_numeral)
    done
qed

lemma overflow_example:
  "detect_stall \<lparr>rolling_window_size = 3, stall_threshold = Finite 0\<rparr>
     \<lparr>items = [JInt (2 ^ 1024), JFloat (Finite 1), JFloat (Finite 1)], maxlen = 3\<rparr>
     = Inl OverflowError"
proof -
  have "(1::int) \<le> 2 ^ 1024" and "(1::rat) \<le> 2 ^ 1024"
    by (rule one_le_power, simp)+
  then have "\<not> (2::int) ^ 1024 < 1" and "\<not> (2::rat) ^ 1024 < 1"
    by (simp_all only: not_less)
  then show ?thesis
    by (simp add: detect_stall_def py_max_def py_min_def py_gt_def py_sub_def as_float_def
        float_of_int_def round64_overflow del: power_numeral)
qed

section \<open>Series aggregation\<close>

text \<open>
  C4. When the messages carry, in order, the keys and prices \<open>rs\<close>, the series stored
  for a key \<open>k\<close> is what it was followed by the prices sent for \<open>k\<close>, in arrival
  order; from the empty store it is exactly these prices. No length bound appears: the
  statement holds for every list of messages.
\<close>

theorem series_in_arrival_order:
  assumes "list_all2 (\<lambda>m r. \<exists>d. loads m = Inr (JObj d) \<and>
              hash_key (dict_get_default d ''symbol'' (JStr ''unknown'')) = Inr (fst r) \<and>
              dict_get_default d ''price'' (JFloat (Finite 0)) = snd r) ms rs"
  shows "series (fst (consume_stock loads ms stock_prices_initial)) k =
           map snd (filter (\<lambda>r. fst r = k) rs) \<and>
         series (fst (consume_stock loads ms sp)) k =
           series sp k @ map snd (filter (\<lambda>r. fst r = k) rs)"
  using series_consume_stock [OF assms]
  by (simp add: stock_prices_initial_def series_def)

theorem series_in_arrival_order_witness:
  "series (fst (consume_stock sample_loads
      [stock_text, stock_text_msft, stock_text_no_price, stock_text_word]
      stock_prices_initial)) (KStr ''AAPL'') =
     [JFloat (Finite (601 / 4)), JFloat (Finite 0), JStr ''abc'']"
proof -
  have "list_all2 (\<lambda>m r. \<exists>d. sample_loads m = Inr (JObj d) \<and>
              hash_key (dict_get_default d ''symbol'' (JStr ''unknown'')) = Inr (fst r) \<and>
              dict_get_default d ''price'' (JFloat (Finite 0)) = snd r)
          [stock_text, stock_text_msft, stock_text_no_price, stock_text_word]
          [(KStr ''AAPL'', JFloat (Finite (601 / 4))), (KStr ''MSFT'', JFloat (Finite (621 / 2))),
           (KStr ''AAPL'', JFloat (Finite 0)), (KStr ''AAPL'', JStr ''abc'')]"
    by (simp add: sample_loads_simps dict_get_default_def)
  from series_in_arrival_order [OF this, of "KStr ''AAPL''", THEN conjunct1]
  show ?thesis by simp
qed

text \<open>
  C9. A message for the key \<open>k1\<close> appends its price to the list of \<open>k1\<close> and
  leaves the entry of every other key \<open>k2\<close> as it was (its list, or its absence).
\<close>

theorem other_keys_unchanged:
  assumes "loads m = Inr (JObj d)"
    and "hash_key (dict_get_default d ''symbol'' (JStr ''unknown'')) = Inr k1"
    and "k2 \<noteq> k1"
  shows "fst (process_stock_message loads m sp) k1 =
           Some (series sp k1 @ [dict_get_default d ''price'' (JFloat (Finite 0))]) \<and>
         fst (process_stock_message loads m sp) k2 = sp k2"
  using process_stock_message_object [of loads m d k1 sp] assms
  by (simp add: series_append_def)

theorem other_keys_unchanged_witness:
  "fst (process_stock_message sample_loads stock_text_msft
          [KStr ''AAPL'' \<mapsto> [JFloat (Finite (601 / 4))]]) (KStr ''MSFT'') =
     Some [JFloat (Finite (621 / 2))] \<and>
   fst (process_stock_message sample_loads stock_text_msft
          [KStr ''AAPL'' \<mapsto> [JFloat (Finite (601 / 4))]]) (KStr ''AAPL'') =
     Some [JFloat (Finite (601 / 4))]"
proof -
  have a: "sample_loads stock_text_msft =
      Inr (JObj [(''timestamp'', JStr ''2025-01-25T10:00:01''), (''symbol'', JStr ''MSFT''),
                 (''price'', JFloat (Finite (621 / 2)))])"
    by (rule sample_loads_simps)
  have b: "hash_key (dict_get_default [(''timestamp'', JStr ''2025-01-25T10:00:01''),
        (''symbol'', JStr ''MSFT''), (''price'', JFloat (Finite (621 / 2)))] ''symbol''
        (JStr ''unknown'')) = Inr (KStr ''MSFT'')"
    by (simp add: dict_get_default_def)
  have c: "KStr ''AAPL'' \<noteq> KStr ''MSFT''"
    by simp
  from other_keys_unchanged [where loads = sample_loads and m = stock_text_msft
      and sp = "[KStr ''AAPL'' \<mapsto> [JFloat (Finite (601 / 4))]]", OF a b c]
  show ?thesis by (simp add: series_def dict_get_default_def)
qed

text \<open>
  C10. A message that parses to a value other than a dict (a list, a number, a str, a
  bool, \<open>None\<close>) changes no entry of the store; the report is the error line of the
  \<open>else\<close> branch, and the loop goes on with the next message from the same store.
\<close>

theorem non_object_rejected:
  assumes "loads m = Inr j" and "\<not> is_dict j"
  shows "process_stock_message loads m sp = (sp, Expected_dictionary) \<and>
         consume_stock loads (m # others) sp =
           (case consume_stock loads others sp of
              (sp', outs) \<Rightarrow> (sp', Expected_dictionary # outs))"
  using process_stock_message_non_object [of loads m j sp] assms
  by (simp add: consume_stock_Cons case_prod_beta)

theorem non_object_rejected_witness:
  "sample_loads list_text = Inr (JArr [JInt 1, JInt 2]) \<and>
   \<not> is_dict (JArr [JInt 1, JInt 2]) \<and>
   process_stock_message sample_loads list_text [KStr ''AAPL'' \<mapsto> [JFloat (Finite (601 / 4))]] =
     ([KStr ''AAPL'' \<mapsto> [JFloat (Finite (601 / 4))]], Expected_dictionary)"
proof -
  have a: "sample_loads list_text = Inr (JArr [JInt 1, JInt 2])"
    by (rule sample_loads_simps)
  have b: "\<not> is_dict (JArr [JInt 1, JInt 2])"
    by simp
  from a b non_object_rejected [where loads = sample_loads and m = list_text
      and sp = "[KStr ''AAPL'' \<mapsto> [JFloat (Finite (601 / 4))]]", OF a b, THEN conjunct1]
  show ?thesis by simp
qed

text \<open>
  C5, as stated, fails: the stock consumer reads the price with
  \<open>message_dict.get("price", 0.0)\<close>, so a payload without \<open>price\<close> is not rejected.
  On the text \<open>stock_text_no_price\<close> and the empty store, the series of AAPL becomes
  \<open>[0.0]\<close> and the update is reported.
\<close>

theorem missing_price_counterexample:
  "sample_loads stock_text_no_price =
     Inr (JObj [(''timestamp'', JStr ''2025-01-25T10:00:00''), (''symbol'', JStr ''AAPL'')]) \<and>
   series stock_prices_initial (KStr ''AAPL'') = [] \<and>
   process_stock_message sample_loads stock_text_no_price stock_prices_initial =
     ([KStr ''AAPL'' \<mapsto> [JFloat (Finite 0)]],
      Updated_prices (KStr ''AAPL'') [JFloat (Finite 0)]) \<and>
   series (fst (process_stock_message sample_loads stock_text_no_price stock_prices_initial))
       (KStr ''AAPL'') \<noteq> series stock_prices_initial (KStr ''AAPL'')"
  by (simp add: sample_loads_simps process_stock_message_def dict_get_default_def Let_def
      series_append_def series_def stock_prices_initial_def)

text \<open>
  C5, amended. A parsed dict without the key \<open>price\<close> is not rejected as incomplete.
  When its symbol (\<open>"unknown"\<close> when absent) is hashable, the default 0.0 is appended to
  the series of the symbol and the update is reported. When the symbol is a list or a
  dict, the lookup \<open>stock_prices[symbol]\<close> raises TypeError, the handler catches it, and
  the store is unchanged.
\<close>

theorem missing_price_default:
  assumes "loads m = Inr (JObj d)" and "map_of d ''price'' = None"
  shows "process_stock_message loads m sp =
           (case hash_key (dict_get_default d ''symbol'' (JStr ''unknown'')) of
              Inl e \<Rightarrow> (sp, Error_processing_message e)
            | Inr k \<Rightarrow>
                (sp(k \<mapsto> series sp k @ [JFloat (Finite 0)]),
                 Updated_prices k (series sp k @ [JFloat (Finite 0)])))"
  using process_stock_message_dict [of loads m d sp] assms
  by (simp add: series_append_def dict_get_default_def split: sum.splits)

theorem missing_price_default_witness:
  "process_stock_message sample_loads stock_text_no_price
     [KStr ''AAPL'' \<mapsto> [JFloat (Finite (601 / 4))]] =
     ([KStr ''AAPL'' \<mapsto> [JFloat (Finite (601 / 4)), JFloat (Finite 0)]],
      Updated_prices (KStr ''AAPL'') [JFloat (Finite (601 / 4)), JFloat (Finite 0)]) \<and>
   process_stock_message sample_loads stock_text_list_symbol
     [KStr ''AAPL'' \<mapsto> [JFloat (Finite (601 / 4))]] =
     ([KStr ''AAPL'' \<mapsto> [JFloat (Finite (601 / 4))]], Error_processing_message TypeError)"
proof -
  have a: "sample_loads stock_text_no_price =
      Inr (JObj [(''timestamp'', JStr ''2025-01-25T10:00:00''), (''symbol'', JStr ''AAPL'')])"
    by (rule sample_loads_simps)
  have b: "map_of [(''timestamp'', JStr ''2025-01-25T10:00:00''),
        (''symbol'', JStr ''AAPL'')] ''price'' = None"
    by simp
  have c: "sample_loads stock_text_list_symbol = Inr (JObj [(''symbol'', JArr [JStr ''AAPL''])])"
    by (rule sample_loads_simps)
  have d: "map_of [(''symbol'', JArr [JStr ''AAPL''])] ''price'' = None"
    by simp
  from missing_price_default [where loads = sample_loads and m = stock_text_no_price
      and sp = "[KStr ''AAPL'' \<mapsto> [JFloat (Finite (601 / 4))]]", OF a b]
    missing_price_default [where loads = sample_loads and m = stock_text_list_symbol
      and sp = "[KStr ''AAPL'' \<mapsto> [JFloat (Finite (601 / 4))]]", OF c d]
  show ?thesis by (simp add: series_def dict_get_default_def)
qed

section \<open>Messages that are skipped\<close>

text \<open>
  C6. A message that \<open>json.loads\<close> rejects with a JSONDecodeError is caught by the
  first handler of either consumer: the deque, respectively the store, is returned as it
  was, the report is the decoding error, and the loop of \<open>main\<close> goes on with the
  remaining messages from the unchanged state.
\<close>

theorem undecodable_skipped:
  assumes "loads m = Inl JSONDecodeError"
  shows "process_message loads cfg m rw ws = (rw, JSON_decoding_error) \<and>
         process_stock_message loads m sp = (sp, Invalid_JSON) \<and>
         consume loads decode cfg ws (Str m # rest) rw =
           (case consume loads decode cfg ws rest rw of
              (rw', outs, err) \<Rightarrow> (rw', JSON_decoding_error # outs, err)) \<and>
         consume_stock loads (m # others) sp =
           (case consume_stock loads others sp of
              (sp', outs) \<Rightarrow> (sp', Invalid_JSON # outs))"
  using assms
  by (simp add: process_message_error process_stock_message_error consume_Str
      consume_stock_Cons case_prod_beta)

theorem undecodable_skipped_witness:
  "sample_loads bad_text = Inl JSONDecodeError \<and>
   process_message sample_loads sample_config bad_text
     \<lparr>items = [JFloat (Finite 449), JFloat (Finite 451)], maxlen = 3\<rparr> 3 =
     (\<lparr>items = [JFloat (Finite 449), JFloat (Finite 451)], maxlen = 3\<rparr>, JSON_decoding_error) \<and>
   process_stock_message sample_loads bad_text stock_prices_initial =
     (stock_prices_initial, Invalid_JSON)"
proof -
  have a: "sample_loads bad_text = Inl JSONDecodeError"
    by (rule sample_loads_simps)
  from a undecodable_skipped [where loads = sample_loads and m = bad_text
      and cfg = sample_config
      and rw = "\<lparr>items = [JFloat (Finite 449), JFloat (Finite 451)], maxlen = 3\<rparr>"
      and ws = 3 and sp = stock_prices_initial, OF a]
  show ?thesis by simp
qed

text \<open>
  C8. In the health consumer, a parsed dict in which one of the six fields is missing or
  \<open>null\<close> returns early: the deque is unchanged, the report is the invalid-format
  line, and the loop goes on with the remaining messages from the unchanged deque.
\<close>

theorem incomplete_record_skipped:
  assumes "loads m = Inr (JObj d)"
    and "f \<in> set required_fields"
    and "map_of d f = None \<or> map_of d f = Some JNull"
  shows "process_message loads cfg m rw ws = (rw, Invalid_message_format) \<and>
         consume loads decode cfg ws (Str m # rest) rw =
           (case consume loads decode cfg ws rest rw of
              (rw', outs, err) \<Rightarrow> (rw', Invalid_message_format # outs, err))"
proof -
  from assms(3) have "dict_get d f = JNull" by (simp add: dict_get_JNull)
  with assms(1,2) have "process_message loads cfg m rw ws = (rw, Invalid_message_format)"
    by (rule process_message_incomplete)
  then show ?thesis by (simp add: consume_Str)
qed

theorem incomplete_record_skipped_witness:
  "process_message sample_loads sample_config health_text_no_sleep
     \<lparr>items = [JFloat (Finite 449), JFloat (Finite 451)], maxlen = 3\<rparr> 3 =
     (\<lparr>items = [JFloat (Finite 449), JFloat (Finite 451)], maxlen = 3\<rparr>,
      Invalid_message_format) \<and>
   fst (consume sample_loads Inr sample_config 3 [Str health_text_no_sleep, Str health_text]
     \<lparr>items = [JFloat (Finite 449), JFloat (Finite 451)], maxlen = 3\<rparr>) =
     \<lparr>items = [JFloat (Finite 449), JFloat (Finite 451), JFloat (Finite 450)], maxlen = 3\<rparr>"
proof -
  have a: "sample_loads health_text_no_sleep =
      Inr (JObj [(''timestamp'', JStr ''2025-01-11T18:15:00Z''), (''steps'', JInt 12500),
                 (''heart_rate'', JInt 80), (''calories_burned'', JFloat (Finite 450)),
                 (''hydration_liters'', JFloat (Finite (5 / 2)))])"
    by (rule sample_loads_simps)
  have b: "''sleep_hours'' \<in> set required_fields"
    by (simp add: required_fields_def)
  have c: "map_of [(''timestamp'', JStr ''2025-01-11T18:15:00Z''), (''steps'', JInt 12500),
                 (''heart_rate'', JInt 80), (''calories_burned'', JFloat (Finite 450)),
                 (''hydration_liters'', JFloat (Finite (5 / 2)))] ''sleep_hours'' = None \<or>
           map_of [(''timestamp'', JStr ''2025-01-11T18:15:00Z''), (''steps'', JInt 12500),
                 (''heart_rate'', JInt 80), (''calories_burned'', JFloat (Finite 450)),
                 (''hydration_liters'', JFloat (Finite (5 / 2)))] ''sleep_hours'' = Some JNull"
    by simp
  note skipped = incomplete_record_skipped [where loads = sample_loads
      and m = health_text_no_sleep and f = "''sleep_hours''" and cfg = sample_config
      and rw = "\<lparr>items = [JFloat (Finite 449), JFloat (Finite 451)], maxlen = 3\<rparr>"
      and ws = 3 and decode = Inr and rest = "[Str health_text]", OF a b c]
  have complete: "\<forall>f \<in> set required_fields.
      dict_get [(''timestamp'', JStr ''2025-01-11T18:15:00Z''), (''steps'', JInt 12500),
                (''heart_rate'', JInt 80), (''calories_burned'', JFloat (Finite 450)),
                (''sleep_hours'', JFloat (Finite 7)),
                (''hydration_liters'', JFloat (Finite (5 / 2)))] f \<noteq> JNull"
    by (simp add: required_fields_def dict_get_def)
  have next_one: "fst (process_message sample_loads sample_config health_text
        \<lparr>items = [JFloat (Finite 449), JFloat (Finite 451)], maxlen = 3\<rparr> 3) =
      \<lparr>items = [JFloat (Finite 449), JFloat (Finite 451), JFloat (Finite 450)], maxlen = 3\<rparr>"
    using process_message_complete [where loads = sample_loads and m = health_text
        and cfg = sample_config and ws = 3
        and rw = "\<lparr>items = [JFloat (Finite 449), JFloat (Finite 451)], maxlen = 3\<rparr>",
        OF sample_loads_simps(1) complete]
    by (simp add: dict_get_def deque_append_def)
  from skipped next_one show ?thesis
    by (simp add: case_prod_beta Let_def)
qed

section \<open>The metric is stored as parsed\<close>

text \<open>
  C7, as stated, fails: neither consumer converts the metric or tests its type. The stock
  consumer appends the price \<open>"abc"\<close> to the series of AAPL and reports the update;
  the health consumer appends the calories \<open>"n/a"\<close> to the deque and reports no
  stall; and it appends the int \<open>451\<close> as the int it is, not as a float.
\<close>

theorem metric_type_counterexample:
  "sample_loads stock_text_word =
     Inr (JObj [(''timestamp'', JStr ''2025-01-25T10:00:00''), (''symbol'', JStr ''AAPL''),
                (''price'', JStr ''abc'')]) \<and>
   process_stock_message sample_loads stock_text_word stock_prices_initial =
     ([KStr ''AAPL'' \<mapsto> [JStr ''abc'']], Updated_prices (KStr ''AAPL'') [JStr ''abc'']) \<and>
   sample_loads health_text_word =
     Inr (JObj [(''timestamp'', JStr ''2025-01-11T18:15:00Z''), (''steps'', JInt 12500),
                (''heart_rate'', JInt 80), (''calories_burned'', JStr ''n/a''),
                (''sleep_hours'', JFloat (Finite 7)),
                (''hydration_liters'', JFloat (Finite (5 / 2)))]) \<and>
   process_message sample_loads sample_config health_text_word \<lparr>items = [], maxlen = 3\<rparr> 3 =
     (\<lparr>items = [JStr ''n/a''], maxlen = 3\<rparr>, No_stall) \<and>
   sample_loads health_text_int =
     Inr (JObj [(''timestamp'', JStr ''2025-01-11T18:16:00Z''), (''steps'', JInt 12600),
                (''heart_rate'', JInt 82), (''calories_burned'', JInt 451),
                (''sleep_hours'', JFloat (Finite 7)),
                (''hydration_liters'', JFloat (Finite (5 / 2)))]) \<and>
   process_message sample_loads sample_config health_text_int \<lparr>items = [], maxlen = 3\<rparr> 3 =
     (\<lparr>items = [JInt 451], maxlen = 3\<rparr>, No_stall)"
  by (simp add: sample_loads_simps process_stock_message_def
      dict_get_default_def Let_def series_append_def series_def stock_prices_initial_def
      process_message_def dict_get_def deque_append_def detect_stall_def sample_config_def)

text \<open>
  C7, amended. A payload its consumer accepts has its metric stored exactly as parsed,
  whatever its type. In the health consumer, a dict with the six fields present and not
  \<open>null\<close> has the value of \<open>calories_burned\<close> appended to the deque, and the report is
  the result of the stall check on the new deque: the stall line, no stall, or the
  exception the check raised (a TypeError for a full window holding a non-number), the
  value staying in the deque. In the stock consumer, a dict with a hashable symbol has the
  value of \<open>price\<close> (0.0 when absent) appended to the series of the symbol, and the
  update is reported.
\<close>

theorem metric_stored_as_parsed:
  "(loads m = Inr (JObj d) \<and> (\<forall>f \<in> set required_fields. dict_get d f \<noteq> JNull) \<longrightarrow>
      process_message loads cfg m rw ws =
        (deque_append rw (dict_get d ''calories_burned''),
         case detect_stall cfg (deque_append rw (dict_get d ''calories_burned'')) of
           Inl e \<Rightarrow> Error_processing e
         | Inr is_stalled \<Rightarrow>
             if is_stalled
             then Stall_detected (dict_get d ''timestamp'') (dict_get d ''calories_burned'') ws
             else No_stall)) \<and>
   (loads m = Inr (JObj d) \<and>
      hash_key (dict_get_default d ''symbol'' (JStr ''unknown'')) = Inr k \<longrightarrow>
      process_stock_message loads m sp =
        (series_append sp k (dict_get_default d ''price'' (JFloat (Finite 0))),
         Updated_prices k (series sp k @ [dict_get_default d ''price'' (JFloat (Finite 0))])))"
  using process_message_complete [of loads m d cfg rw ws]
    process_stock_message_dict [of loads m d sp]
  by simp

theorem metric_stored_as_parsed_witness:
  "process_message sample_loads sample_config health_text_word
     \<lparr>items = [JFloat (Finite 449), JFloat (Finite 451), JFloat (Finite 450)], maxlen = 3\<rparr> 3 =
     (\<lparr>items = [JFloat (Finite 451), JFloat (Finite 450), JStr ''n/a''], maxlen = 3\<rparr>,
      Error_processing TypeError) \<and>
   process_stock_message sample_loads stock_text_word
     [KStr ''AAPL'' \<mapsto> [JFloat (Finite (601 / 4))]] =
     ([KStr ''AAPL'' \<mapsto> [JFloat (Finite (601 / 4)), JStr ''abc'']],
      Updated_prices (KStr ''AAPL'') [JFloat (Finite (601 / 4)), JStr ''abc''])"
proof -
  have a: "sample_loads health_text_word =
      Inr (JObj [(''timestamp'', JStr ''2025-01-11T18:15:00Z''), (''steps'', JInt 12500),
                 (''heart_rate'', JInt 80), (''calories_burned'', JStr ''n/a''),
                 (''sleep_hours'', JFloat (Finite 7)),
                 (''hydration_liters'', JFloat (Finite (5 / 2)))])"
    by (rule sample_loads_simps)
  have b: "\<forall>f \<in> set required_fields.
      dict_get [(''timestamp'', JStr ''2025-01-11T18:15:00Z''), (''steps'', JInt 12500),
                (''heart_rate'', JInt 80), (''calories_burned'', JStr ''n/a''),
                (''sleep_hours'', JFloat (Finite 7)),
                (''hydration_liters'', JFloat (Finite (5 / 2)))] f \<noteq> JNull"
    by (simp add: required_fields_def dict_get_def)
  have c: "sample_loads stock_text_word =
      Inr (JObj [(''timestamp'', JStr ''2025-01-25T10:00:00''), (''symbol'', JStr ''AAPL''),
                 (''price'', JStr ''abc'')])"
    by (rule sample_loads_simps)
  have d: "hash_key (dict_get_default [(''timestamp'', JStr ''2025-01-25T10:00:00''),
        (''symbol'', JStr ''AAPL''), (''price'', JStr ''abc'')] ''symbol''
        (JStr ''unknown'')) = Inr (KStr ''AAPL'')"
    by (simp add: dict_get_default_def)
  have full: "detect_stall sample_config
      \<lparr>items = [JFloat (Finite 451), JFloat (Finite 450), JStr ''n/a''], maxlen = 3\<rparr> =
      Inl TypeError"
    by (simp add: detect_stall_def sample_config_def py_max_def py_gt_def)
  have "process_message sample_loads sample_config health_text_word
     \<lparr>items = [JFloat (Finite 449), JFloat (Finite 451), JFloat (Finite 450)], maxlen = 3\<rparr> 3 =
     (\<lparr>items = [JFloat (Finite 451), JFloat (Finite 450), JStr ''n/a''], maxlen = 3\<rparr>,
      Error_processing TypeError)"
    using metric_stored_as_parsed [where loads = sample_loads and m = health_text_word
        and d = "[(''timestamp'', JStr ''2025-01-11T18:15:00Z''), (''steps'', JInt 12500),
                 (''heart_rate'', JInt 80), (''calories_burned'', JStr ''n/a''),
                 (''sleep_hours'', JFloat (Finite 7)),
                 (''hydration_liters'', JFloat (Finite (5 / 2)))]"
        and cfg = sample_config
        and rw = "\<lparr>items = [JFloat (Finite 449), JFloat (Finite 451), JFloat (Finite 450)],
          maxlen = 3\<rparr>"
        and ws = 3, THEN conjunct1] a b full
    by (simp add: deque_append_def dict_get_def)
  moreover have "process_stock_message sample_loads stock_text_word
     [KStr ''AAPL'' \<mapsto> [JFloat (Finite (601 / 4))]] =
     ([KStr ''AAPL'' \<mapsto> [JFloat (Finite (601 / 4)), JStr ''abc'']],
      Updated_prices (KStr ''AAPL'') [JFloat (Finite (601 / 4)), JStr ''abc''])"
    using metric_stored_as_parsed [where loads = sample_loads and m = stock_text_word
        and d = "[(''timestamp'', JStr ''2025-01-25T10:00:00''), (''symbol'', JStr ''AAPL''),
                 (''price'', JStr ''abc'')]"
        and sp = "[KStr ''AAPL'' \<mapsto> [JFloat (Finite (601 / 4))]]" and k = "KStr ''AAPL''",
        THEN conjunct2] c d
    by (simp add: dict_get_default_def series_append_def series_def)
  ultimately show ?thesis by simp
qed

end
